theory Spec2Isabelle
  imports Main "HOL-Library.AList"
begin

section \<open>Python exceptions\<close>

text \<open>
  Every \<^verbatim>\<open>raise\<close> and every failing \<^verbatim>\<open>assert\<close> of
  \<^verbatim>\<open>d2go/export/api.py\<close> is a value of this type. \<open>KeyError\<close> carries the key that
  was looked up (the specification calls it \<^verbatim>\<open>KeyNotFoundError\<close>); a failed
  \<^verbatim>\<open>assert isinstance(...)\<close> is an \<open>AssertionError\<close> (the specification's
  \<^verbatim>\<open>TypeConstraintError\<close>); \<open>DuplicateKeyError\<close> is the failure of a registration
  that is not allowed to override; \<open>ExternalError\<close> stands for an exception raised inside
  a collaborator that the module only calls (tracing, quantization, the model's own hooks).
\<close>

datatype error =
    AssertionError
  | StopIteration
  | KeyError string
  | TypeError
  | IndexError
  | ValueError
  | FileNotFoundError
  | DuplicateKeyError string
  | ExternalError nat

section \<open>Strings and paths (Python's \<^verbatim>\<open>str\<close> and \<^verbatim>\<open>posixpath\<close>)\<close>

text \<open>\<^verbatim>\<open>s.startswith(p)\<close>, \<^verbatim>\<open>s.endswith(p)\<close> and the substring test \<^verbatim>\<open>sub in s\<close>.\<close>

fun startswith :: "string \<Rightarrow> string \<Rightarrow> bool" where
  "startswith s [] = True"
| "startswith [] (p # ps) = False"
| "startswith (c # cs) (p # ps) = (c = p \<and> startswith cs ps)"

definition endswith :: "string \<Rightarrow> string \<Rightarrow> bool" where
  "endswith s p = startswith (rev s) (rev p)"

fun str_contains :: "string \<Rightarrow> string \<Rightarrow> bool" where
  "str_contains sub [] = (sub = [])"
| "str_contains sub (c # cs) = (startswith (c # cs) sub \<or> str_contains sub cs)"

text \<open>\<^verbatim>\<open>s.split(sep)\<close> for a one-character separator, and \<^verbatim>\<open>sep.join(xs)\<close>.\<close>

fun str_split :: "char \<Rightarrow> string \<Rightarrow> string list" where
  "str_split sep [] = [[]]"
| "str_split sep (c # cs) =
     (if c = sep then [] # str_split sep cs
      else (case str_split sep cs of
              [] \<Rightarrow> [[c]]
            | x # xs \<Rightarrow> (c # x) # xs))"

fun sep_join :: "string \<Rightarrow> string list \<Rightarrow> string" where
  "sep_join sep [] = []"
| "sep_join sep [x] = x"
| "sep_join sep (x # y # ys) = x @ sep @ sep_join sep (y # ys)"

text \<open>
  \<^verbatim>\<open>os.path.join(a, b)\<close>: an absolute second component replaces the first, otherwise the
  two are concatenated with exactly one separator between them.
\<close>

definition join :: "string \<Rightarrow> string \<Rightarrow> string" where
  "join a b =
     (if startswith b ''/'' then b
      else if a = [] \<or> endswith a ''/'' then a @ b
      else a @ ''/'' @ b)"

text \<open>
  \<^verbatim>\<open>os.path.normpath\<close>: the loop over the components keeps \<open>new_comps\<close> in order,
  drops empty and \<^verbatim>\<open>.\<close> components and resolves \<^verbatim>\<open>..\<close> against the component before it.
\<close>

fun normpath_loop :: "nat \<Rightarrow> string list \<Rightarrow> string list \<Rightarrow> string list" where
  "normpath_loop initial_slashes [] new_comps = new_comps"
| "normpath_loop initial_slashes (part # comps) new_comps =
     (if part = [] \<or> part = ''.'' then normpath_loop initial_slashes comps new_comps
      else if part \<noteq> ''..'' \<or> (initial_slashes = 0 \<and> new_comps = [])
                \<or> (new_comps \<noteq> [] \<and> last new_comps = ''..'')
        then normpath_loop initial_slashes comps (new_comps @ [part])
      else if new_comps \<noteq> [] then normpath_loop initial_slashes comps (butlast new_comps)
      else normpath_loop initial_slashes comps new_comps)"

definition normpath :: "string \<Rightarrow> string" where
  "normpath path =
     (if path = [] then ''.''
      else
        let initial_slashes =
              (if startswith path ''/''
               then (if startswith path ''//'' \<and> \<not> startswith path ''///'' then 2 else 1)
               else (0::nat));
            comps = normpath_loop initial_slashes (str_split CHR ''/'' path) [];
            p = replicate initial_slashes CHR ''/'' @ sep_join ''/'' comps
        in if p = [] then ''.'' else p)"

text \<open>\<^verbatim>\<open>os.path.abspath\<close>, with the working directory \<^verbatim>\<open>os.getcwd()\<close> as a parameter.\<close>

definition abspath :: "string \<Rightarrow> string \<Rightarrow> string" where
  "abspath cwd path = normpath (if startswith path ''/'' then path else join cwd path)"

fun commonprefix :: "'a list \<Rightarrow> 'a list \<Rightarrow> 'a list" where
  "commonprefix (x # xs) (y # ys) = (if x = y then x # commonprefix xs ys else [])"
| "commonprefix xs ys = []"

text \<open>
  \<^verbatim>\<open>os.path.relpath(path, start)\<close>: raises \<^verbatim>\<open>ValueError\<close> on an empty path; otherwise
  climbs from \<open>start\<close> to the longest common prefix and descends to \<open>path\<close>; the relative
  path of a directory to itself is \<^verbatim>\<open>.\<close>.
\<close>

definition relpath :: "string \<Rightarrow> string \<Rightarrow> string \<Rightarrow> error + string" where
  "relpath cwd path start =
     (if path = [] then Inl ValueError
      else
        let start_list = filter (\<lambda>x. x \<noteq> []) (str_split CHR ''/'' (abspath cwd start));
            path_list = filter (\<lambda>x. x \<noteq> []) (str_split CHR ''/'' (abspath cwd path));
            i = length (commonprefix start_list path_list);
            rel_list = replicate (length start_list - i) ''..'' @ drop i path_list
        in if rel_list = [] then Inr ''.''
           else Inr (foldl join (hd rel_list) (tl rel_list)))"

section \<open>Data model\<close>

text \<open>
  A Python object is either an instance of \<^verbatim>\<open>nn.Module\<close> or it is not; the number is
  its identity. Tensors, batches and function descriptors are opaque.
\<close>

datatype pyobj = Module nat | NonModule nat

type_synonym tensor = nat
type_synonym batch = nat
type_synonym FuncInfo = string

text \<open>
  A keyword-argument value is an opaque value or again a dict; a Python dict is an
  association list in insertion order.
\<close>

datatype kwvalue = KwAtom nat | KwDict "(string \<times> kwvalue) list"

type_synonym kwargs = "(string \<times> kwvalue) list"

text \<open>The value an export implementation returns: a dict, or anything else.\<close>

datatype retval = RetDict kwargs | RetOther nat

text \<open>
  The fields of \<^verbatim>\<open>PredictorExportConfig\<close> (lines 54--83) that are unions:
  \<^verbatim>\<open>Union[nn.Module, Dict[str, nn.Module]]\<close>, the data the generator returns in the same
  nested structure (a tuple of positional arguments, or a dict of them), and
  \<^verbatim>\<open>Union[str, Dict[str, str]]\<close>.
\<close>

datatype model_field = SingleModel pyobj | ModelDict "(string \<times> pyobj) list"

datatype inputs_field = InputsTuple "tensor list" | InputsDict "(string \<times> tensor list) list"

datatype method_field = MethodStr string | MethodDict "(string \<times> string) list"

record PredictorExportConfig =
  model :: model_field
  data_generator :: "(batch \<Rightarrow> error + inputs_field) option"
  model_export_method :: "method_field option"
  model_export_kwargs :: "kwargs option"
  preprocess_info :: FuncInfo
  postprocess_info :: FuncInfo
  run_func_info :: FuncInfo

text \<open>
  \<^verbatim>\<open>ModelInfo(path=..., type=...)\<close>, and the keyword arguments from which
  \<^verbatim>\<open>PredictorInfo\<close> is built and that \<^verbatim>\<open>json.dump\<close> writes as the manifest: the manifest
  is kept as this dict, key by key.
\<close>

record ModelInfo =
  path :: string
  type :: string

datatype init_kwarg =
    FuncInfoArg FuncInfo
  | ModelArg ModelInfo
  | ModelsArg "(string \<times> ModelInfo) list"

type_synonym PredictorInfo = "(string \<times> init_kwarg) list"

text \<open>The configuration flags the module reads (\<^verbatim>\<open>cfg.QUANTIZATION...\<close>).\<close>

record cfg =
  QUANTIZATION_QAT_ENABLED :: bool
  QUANTIZATION_EAGER_MODE :: bool
  QUANTIZATION_BACKEND :: string

subsection \<open>The world the module acts on\<close>

text \<open>
  One call of an export implementation: the registry key it was found under and the
  arguments of \<^verbatim>\<open>.export(model=..., input_args=..., save_path=..., **kwargs)\<close>. The
  artifacts such a call writes are the business of the implementation; the world records
  the call with its save path.
\<close>

record export_call =
  call_method :: string
  call_model :: pyobj
  call_input_args :: "inputs_field option"
  call_save_path :: string
  call_kwargs :: kwargs

datatype log_msg =
    RunningPTQ
  | ConvertingQuantized string
  | QuantizedModel pyobj
  | FusedModel pyobj
  | BNExisted

datatype log_record = Info log_msg | Warning log_msg

text \<open>
  \<open>dirs\<close>: the directories made by \<^verbatim>\<open>PathManager.mkdirs\<close>; \<open>files\<close>: the manifests
  written through \<^verbatim>\<open>PathManager.open(..., "w")\<close>; \<open>calls\<close>: the export calls made so
  far; \<open>logged\<close>: the records sent to the module's \<^verbatim>\<open>logger\<close>.
\<close>

record world =
  dirs :: "string list"
  files :: "(string \<times> PredictorInfo) list"
  calls :: "export_call list"
  logged :: "log_record list"

text \<open>
  \<^verbatim>\<open>PathManager.mkdirs(p)\<close> makes the directory if it is missing and is no error if it
  exists; the empty path names no directory and raises \<^verbatim>\<open>FileNotFoundError\<close>.
  \<open>with_dir p w\<close> is the world in which the directory exists.
\<close>

definition with_dir :: "string \<Rightarrow> world \<Rightarrow> world" where
  "with_dir p w = (if p \<in> set (dirs w) then w else w\<lparr>dirs := dirs w @ [p]\<rparr>)"

definition mkdirs :: "string \<Rightarrow> world \<Rightarrow> error + world" where
  "mkdirs p w = (if p = [] then Inl FileNotFoundError else Inr (with_dir p w))"

definition write_file :: "string \<Rightarrow> PredictorInfo \<Rightarrow> world \<Rightarrow> world" where
  "write_file p content w = w\<lparr>files := AList.update p content (files w)\<rparr>"

definition info :: "log_msg \<Rightarrow> world \<Rightarrow> world" where
  "info msg w = w\<lparr>logged := logged w @ [Info msg]\<rparr>"

definition warning :: "log_msg \<Rightarrow> world \<Rightarrow> world" where
  "warning msg w = w\<lparr>logged := logged w @ [Warning msg]\<rparr>"

section \<open>The Export-Method Registry\<close>

text \<open>
  Modelled from the spec: the class \<^verbatim>\<open>Registry\<close> is imported from
  \<^verbatim>\<open>mobile_cv.common.misc.registry\<close> (line 42) and is not among the sources. Section 4.1
  of the specification gives its contract: \<^verbatim>\<open>register(key, impl)\<close> inserts, or overrides
  if override is explicitly permitted; a duplicate registration without override
  permission fails with \<^verbatim>\<open>DuplicateKeyError\<close>; \<^verbatim>\<open>get(key)\<close> returns the implementation or
  fails with \<^verbatim>\<open>KeyNotFoundError\<close> if absent.
\<close>

type_synonym export_impl =
  "pyobj \<Rightarrow> inputs_field option \<Rightarrow> string \<Rightarrow> kwargs \<Rightarrow> error + retval"

record Registry =
  registry_name :: string
  obj_map :: "(string \<times> export_impl) list"
  allow_override :: bool

definition Registry :: "string \<Rightarrow> bool \<Rightarrow> Registry" where
  "Registry name allow = \<lparr>registry_name = name, obj_map = [], allow_override = allow\<rparr>"

definition register :: "Registry \<Rightarrow> string \<Rightarrow> export_impl \<Rightarrow> error + Registry" where
  "register r key impl =
     (if key \<in> set (map fst (obj_map r)) \<and> \<not> allow_override r
      then Inl (DuplicateKeyError key)
      else Inr (r\<lparr>obj_map := AList.update key impl (obj_map r)\<rparr>))"

definition get :: "Registry \<Rightarrow> string \<Rightarrow> error + export_impl" where
  "get r key =
     (case map_of (obj_map r) key of
        None \<Rightarrow> Inl (KeyError key)
      | Some impl \<Rightarrow> Inr impl)"

section \<open>The collaborators the module calls\<close>

text \<open>
  What \<^verbatim>\<open>d2go/export/api.py\<close> imports and calls but does not define is a parameter of
  the model: the working directory that \<^verbatim>\<open>os.path.relpath\<close> reads, the registry as it is
  when an export runs, the optional hooks of a model object (\<^verbatim>\<open>hasattr(m, ...)\<close> is
  \<open>attr_... env m \<noteq> None\<close>), and the quantization and fusing functions. A hook that
  exports a predictor acts on the world as it likes; the others return a value or raise.
\<close>

record env =
  getcwd :: string
  method_registry :: Registry
  attr_prepare_for_export ::
    "pyobj \<Rightarrow> (cfg \<Rightarrow> batch \<Rightarrow> string \<Rightarrow> error + PredictorExportConfig) option"
  attr_export_predictor ::
    "pyobj \<Rightarrow> (cfg \<Rightarrow> string \<Rightarrow> string \<Rightarrow> batch list \<Rightarrow> world
              \<Rightarrow> (error + string) \<times> world) option"
  attr_prepare_for_quant_convert :: "pyobj \<Rightarrow> (cfg \<Rightarrow> error + pyobj) option"
  post_training_quantize :: "cfg \<Rightarrow> pyobj \<Rightarrow> batch list \<Rightarrow> error + pyobj"
  check_bn_exist :: "pyobj \<Rightarrow> bool"
  count_bn_exist :: "pyobj \<Rightarrow> int"
  fuse_model :: "pyobj \<Rightarrow> error + pyobj"
  quantization_convert :: "pyobj \<Rightarrow> error + pyobj"
  convert_fx :: "pyobj \<Rightarrow> error + pyobj"

section \<open>The Single-Model Exporter (lines 157--175)\<close>

text \<open>
  \<^verbatim>\<open>**model_export_kwargs\<close>: the value must be a mapping, and none of its keys may
  repeat a keyword the call already gives.
\<close>

definition expand_kwargs :: "kwvalue \<Rightarrow> error + kwargs" where
  "expand_kwargs v =
     (case v of
        KwAtom _ \<Rightarrow> Inl TypeError
      | KwDict d \<Rightarrow>
          (if \<exists>k \<in> set (map fst d). k \<in> {''model'', ''input_args'', ''save_path''}
           then Inl TypeError else Inr d))"

text \<open>
  \<^verbatim>\<open>_export_single_model\<close>. The export-method argument is what the caller computed, a
  string or (when a configuration gives a dict for a single model) a dict, which cannot
  be a key of the registry. The call of \<^verbatim>\<open>.export\<close> is recorded in the world before its
  result is inspected.
\<close>

definition export_single_model ::
  "env \<Rightarrow> string \<Rightarrow> pyobj \<Rightarrow> inputs_field option \<Rightarrow> string \<Rightarrow> method_field \<Rightarrow> kwvalue
     \<Rightarrow> string \<Rightarrow> world \<Rightarrow> (error + ModelInfo) \<times> world" where
  "export_single_model env predictor_path model' input_args save_path model_export_method'
       model_export_kwargs' predictor_type w =
     (case model' of
        NonModule _ \<Rightarrow> (Inl AssertionError, w)
      | Module _ \<Rightarrow>
          (case model_export_method' of
             MethodDict _ \<Rightarrow> (Inl TypeError, w)
           | MethodStr key \<Rightarrow>
               (case get (method_registry env) key of
                  Inl e \<Rightarrow> (Inl e, w)
                | Inr impl \<Rightarrow>
                    (case expand_kwargs model_export_kwargs' of
                       Inl e \<Rightarrow> (Inl e, w)
                     | Inr kw \<Rightarrow>
                         (let w1 = w\<lparr>calls := calls w @
                                     [\<lparr>call_method = key, call_model = model',
                                       call_input_args = input_args,
                                       call_save_path = save_path, call_kwargs = kw\<rparr>]\<rparr>
                          in case impl model' input_args save_path kw of
                               Inl e \<Rightarrow> (Inl e, w1)
                             | Inr load_kwargs \<Rightarrow>
                                 (case load_kwargs of
                                    RetOther _ \<Rightarrow> (Inl AssertionError, w1)
                                  | RetDict _ \<Rightarrow>
                                      (case relpath (getcwd env) save_path predictor_path of
                                         Inl e \<Rightarrow> (Inl e, w1)
                                       | Inr model_rel_path \<Rightarrow>
                                           (Inr \<lparr>path = model_rel_path, type = predictor_type\<rparr>,
                                            w1))))))))"

section \<open>The Default Predictor Exporter (lines 178--245)\<close>

text \<open>
  The three per-sub-model arguments of the mapping case (lines 209--220), in the order
  Python evaluates them. Indexing a tuple or a string with a name is a
  \<^verbatim>\<open>TypeError\<close>; a missing key of a dict is a \<^verbatim>\<open>KeyError\<close>.
\<close>

definition sub_input_args :: "inputs_field option \<Rightarrow> string \<Rightarrow> error + inputs_field option" where
  "sub_input_args model_inputs name =
     (case model_inputs of
        None \<Rightarrow> Inr None
      | Some (InputsTuple _) \<Rightarrow> Inl TypeError
      | Some (InputsDict d) \<Rightarrow>
          (case map_of d name of
             None \<Rightarrow> Inl (KeyError name)
           | Some a \<Rightarrow> Inr (Some (InputsTuple a))))"

definition sub_export_method :: "string \<Rightarrow> method_field option \<Rightarrow> string \<Rightarrow> error + method_field" where
  "sub_export_method predictor_type mem name =
     (case mem of
        None \<Rightarrow> Inr (MethodStr predictor_type)
      | Some (MethodStr _) \<Rightarrow> Inl TypeError
      | Some (MethodDict d) \<Rightarrow>
          (case map_of d name of None \<Rightarrow> Inl (KeyError name) | Some s \<Rightarrow> Inr (MethodStr s)))"

definition sub_export_kwargs :: "kwargs option \<Rightarrow> string \<Rightarrow> error + kwvalue" where
  "sub_export_kwargs mek name =
     (case mek of
        None \<Rightarrow> Inr (KwDict [])
      | Some d \<Rightarrow>
          (case map_of d name of None \<Rightarrow> Inl (KeyError name) | Some v \<Rightarrow> Inr v))"

text \<open>
  The loop of lines 204--223 over \<^verbatim>\<open>export_config.model.items()\<close>; \<open>models_info\<close> is the
  dict built so far. An exception leaves the loop with the world as it is then.
\<close>

fun export_models ::
  "env \<Rightarrow> PredictorExportConfig \<Rightarrow> inputs_field option \<Rightarrow> string \<Rightarrow> string
     \<Rightarrow> (string \<times> pyobj) list \<Rightarrow> (string \<times> ModelInfo) list \<Rightarrow> world
     \<Rightarrow> (error + (string \<times> ModelInfo) list) \<times> world" where
  "export_models env export_config model_inputs predictor_path predictor_type [] models_info w =
     (Inr models_info, w)"
| "export_models env export_config model_inputs predictor_path predictor_type
       ((name, model') # rest) models_info w =
     (let save_path = join predictor_path name in
      case sub_input_args model_inputs name of
        Inl e \<Rightarrow> (Inl e, w)
      | Inr input_args \<Rightarrow>
          (case sub_export_method predictor_type (model_export_method export_config) name of
             Inl e \<Rightarrow> (Inl e, w)
           | Inr export_method \<Rightarrow>
               (case sub_export_kwargs (model_export_kwargs export_config) name of
                  Inl e \<Rightarrow> (Inl e, w)
                | Inr kw \<Rightarrow>
                    (case export_single_model env predictor_path model' input_args save_path
                            export_method kw predictor_type w of
                       (Inl e, w') \<Rightarrow> (Inl e, w')
                     | (Inr model_info, w') \<Rightarrow>
                         export_models env export_config model_inputs predictor_path
                           predictor_type rest (AList.update name model_info models_info) w'))))"

text \<open>
  The single-model case resolves its two arguments with \<^verbatim>\<open>or\<close> (lines 232--233): a
  value that is \<^verbatim>\<open>None\<close>, an empty string or an empty dict gives way to the default.
\<close>

definition single_export_method :: "method_field option \<Rightarrow> string \<Rightarrow> method_field" where
  "single_export_method mem predictor_type =
     (case mem of
        None \<Rightarrow> MethodStr predictor_type
      | Some (MethodStr s) \<Rightarrow> (if s = [] then MethodStr predictor_type else MethodStr s)
      | Some (MethodDict d) \<Rightarrow> (if d = [] then MethodStr predictor_type else MethodDict d))"

definition single_export_kwargs :: "kwargs option \<Rightarrow> kwvalue" where
  "single_export_kwargs mek = (case mek of None \<Rightarrow> KwDict [] | Some d \<Rightarrow> KwDict d)"

text \<open>
  Lines 238--245: the manifest is assembled from the keyword arguments and written to
  \<^verbatim>\<open>predictor_info.json\<close> under the predictor root, which is returned.
\<close>

definition write_predictor_info :: "string \<Rightarrow> PredictorInfo \<Rightarrow> world \<Rightarrow> (error + string) \<times> world" where
  "write_predictor_info predictor_path predictor_init_kwargs w =
     (Inr predictor_path,
      write_file (join predictor_path ''predictor_info.json'') predictor_init_kwargs w)"

definition default_export_predictor ::
  "env \<Rightarrow> cfg \<Rightarrow> pyobj \<Rightarrow> string \<Rightarrow> string \<Rightarrow> batch list \<Rightarrow> world \<Rightarrow> (error + string) \<times> world" where
  "default_export_predictor env cfg pytorch_model predictor_type output_dir data_loader w =
     (case attr_prepare_for_export env pytorch_model of
        None \<Rightarrow> (Inl AssertionError, w)
      | Some prepare_for_export \<Rightarrow>
          (case data_loader of
             [] \<Rightarrow> (Inl StopIteration, w)
           | inputs # _ \<Rightarrow>
               (case prepare_for_export cfg inputs predictor_type of
                  Inl e \<Rightarrow> (Inl e, w)
                | Inr export_config \<Rightarrow>
                    (case (case data_generator export_config of
                             None \<Rightarrow> Inr None
                           | Some g \<Rightarrow> (case g inputs of Inl e \<Rightarrow> Inl e | Inr d \<Rightarrow> Inr (Some d))) of
                       Inl e \<Rightarrow> (Inl e, w)
                     | Inr model_inputs \<Rightarrow>
                         (let predictor_path = join output_dir predictor_type in
                          case mkdirs predictor_path w of
                            Inl e \<Rightarrow> (Inl e, w)
                          | Inr w1 \<Rightarrow>
                          (let predictor_init_kwargs =
                                [(''preprocess_info'', FuncInfoArg (preprocess_info export_config)),
                                 (''postprocess_info'', FuncInfoArg (postprocess_info export_config)),
                                 (''run_func_info'', FuncInfoArg (run_func_info export_config))]
                          in case model export_config of
                               ModelDict d \<Rightarrow>
                                 (case export_models env export_config model_inputs predictor_path
                                         predictor_type d [] w1 of
                                    (Inl e, w2) \<Rightarrow> (Inl e, w2)
                                  | (Inr models_info, w2) \<Rightarrow>
                                      write_predictor_info predictor_path
                                        (AList.update ''models'' (ModelsArg models_info)
                                           predictor_init_kwargs) w2)
                             | SingleModel m \<Rightarrow>
                                 (case export_single_model env predictor_path m model_inputs
                                         predictor_path
                                         (single_export_method (model_export_method export_config)
                                            predictor_type)
                                         (single_export_kwargs (model_export_kwargs export_config))
                                         predictor_type w1 of
                                    (Inl e, w2) \<Rightarrow> (Inl e, w2)
                                  | (Inr model_info, w2) \<Rightarrow>
                                      write_predictor_info predictor_path
                                        (AList.update ''model'' (ModelArg model_info)
                                           predictor_init_kwargs) w2)))))))"

section \<open>Dispatch and the entry point (lines 86--154)\<close>

text \<open>
  \<^verbatim>\<open>export_predictor\<close>: a model that has an \<^verbatim>\<open>export_predictor\<close> attribute exports
  itself; any other model goes through the default exporter.
\<close>

definition export_predictor ::
  "env \<Rightarrow> cfg \<Rightarrow> pyobj \<Rightarrow> string \<Rightarrow> string \<Rightarrow> batch list \<Rightarrow> world \<Rightarrow> (error + string) \<times> world" where
  "export_predictor env cfg pytorch_model predictor_type output_dir data_loader w =
     (case attr_export_predictor env pytorch_model of
        Some f \<Rightarrow> f cfg predictor_type output_dir data_loader w
      | None \<Rightarrow>
          default_export_predictor env cfg pytorch_model predictor_type output_dir data_loader w)"

text \<open>
  \<^verbatim>\<open>convert_and_export_predictor\<close>. The first \<open>case\<close> is the block of lines 97--104
  (post-training quantization and the assertion that no batch normalization is left),
  the second the conversion of lines 106--114.
\<close>

definition convert_and_export_predictor ::
  "env \<Rightarrow> cfg \<Rightarrow> pyobj \<Rightarrow> string \<Rightarrow> string \<Rightarrow> batch list \<Rightarrow> world \<Rightarrow> (error + string) \<times> world" where
  "convert_and_export_predictor env cfg pytorch_model predictor_type output_dir data_loader w =
     (if str_contains ''int8'' predictor_type then
        (case (if \<not> QUANTIZATION_QAT_ENABLED cfg then
                 (let w1 = info RunningPTQ w in
                  case post_training_quantize env cfg pytorch_model data_loader of
                    Inl e \<Rightarrow> (Inl e, w1)
                  | Inr m \<Rightarrow>
                      (if check_bn_exist env m then (Inl AssertionError, w1) else (Inr m, w1)))
               else (Inr pytorch_model, w)) of
           (Inl e, w1) \<Rightarrow> (Inl e, w1)
         | (Inr m1, w1) \<Rightarrow>
             (let w2 = info (ConvertingQuantized (QUANTIZATION_BACKEND cfg)) w1 in
              case (if QUANTIZATION_EAGER_MODE cfg then quantization_convert env m1
                    else (case attr_prepare_for_quant_convert env m1 of
                            Some f \<Rightarrow> f cfg
                          | None \<Rightarrow> convert_fx env m1)) of
                Inl e \<Rightarrow> (Inl e, w2)
              | Inr m2 \<Rightarrow>
                  export_predictor env cfg m2 predictor_type output_dir data_loader
                    (info (QuantizedModel m2) w2)))
      else
        (case fuse_model env pytorch_model of
           Inl e \<Rightarrow> (Inl e, w)
         | Inr m \<Rightarrow>
             (let w1 = info (FusedModel m) w;
                  w2 = (if count_bn_exist env m > 0 then warning BNExisted w1 else w1)
              in export_predictor env cfg m predictor_type output_dir data_loader w2)))"

section \<open>The registered export methods (lines 248--286)\<close>

text \<open>
  The three implementations delegate to \<^verbatim>\<open>export_caffe2\<close> and
  \<^verbatim>\<open>trace_and_save_torchscript\<close>, which live in other modules and are parameters here;
  each returns the empty dict. Each is a classmethod \<^verbatim>\<open>export(cls, model, input_args,
  save_path, **export_kwargs)\<close>, so a keyword argument named \<^verbatim>\<open>cls\<close> collides with the
  bound class and the call raises \<^verbatim>\<open>TypeError\<close> before the body runs.
  \<^verbatim>\<open>input_args[0]\<close> fails on \<^verbatim>\<open>None\<close>, on an empty tuple and on a dict of names (it has
  no key 0); the mobile variant passes \<^verbatim>\<open>mobile_optimization\<close> itself, so the keyword
  arguments must not repeat it.
\<close>

type_synonym export_caffe2_fn = "pyobj \<Rightarrow> tensor \<Rightarrow> string \<Rightarrow> kwargs \<Rightarrow> error + unit"

type_synonym trace_and_save_fn =
  "pyobj \<Rightarrow> inputs_field option \<Rightarrow> string \<Rightarrow> bool \<Rightarrow> kwargs \<Rightarrow> error + unit"

definition DefaultCaffe2Export :: "export_caffe2_fn \<Rightarrow> export_impl" where
  "DefaultCaffe2Export export_caffe2 model' input_args save_path export_kwargs =
     (if ''cls'' \<in> set (map fst export_kwargs) then Inl TypeError
      else
        (case input_args of
           None \<Rightarrow> Inl TypeError
         | Some (InputsDict _) \<Rightarrow> Inl (KeyError ''0'')
         | Some (InputsTuple []) \<Rightarrow> Inl IndexError
         | Some (InputsTuple (x # _)) \<Rightarrow>
             (case export_caffe2 model' x save_path export_kwargs of
                Inl e \<Rightarrow> Inl e
              | Inr _ \<Rightarrow> Inr (RetDict []))))"

definition DefaultTorchscriptExport :: "trace_and_save_fn \<Rightarrow> export_impl" where
  "DefaultTorchscriptExport trace_and_save_torchscript model' input_args save_path export_kwargs =
     (if ''cls'' \<in> set (map fst export_kwargs) then Inl TypeError
      else
        (case trace_and_save_torchscript model' input_args save_path False export_kwargs of
           Inl e \<Rightarrow> Inl e
         | Inr _ \<Rightarrow> Inr (RetDict [])))"

definition DefaultTorchscriptMobileExport :: "trace_and_save_fn \<Rightarrow> export_impl" where
  "DefaultTorchscriptMobileExport trace_and_save_torchscript model' input_args save_path
       export_kwargs =
     (if ''cls'' \<in> set (map fst export_kwargs) then Inl TypeError
      else if ''mobile_optimization'' \<in> set (map fst export_kwargs) then Inl TypeError
      else
        (case trace_and_save_torchscript model' input_args save_path True export_kwargs of
           Inl e \<Rightarrow> Inl e
         | Inr _ \<Rightarrow> Inr (RetDict [])))"

text \<open>
  The registrations in the order they run when the module is loaded: stacked decorators
  apply from the bottom one up.
\<close>

fun register_all :: "Registry \<Rightarrow> (string \<times> export_impl) list \<Rightarrow> error + Registry" where
  "register_all r [] = Inr r"
| "register_all r ((key, impl) # rest) =
     (case register r key impl of
        Inl e \<Rightarrow> Inl e
      | Inr r' \<Rightarrow> register_all r' rest)"

definition registrations :: "export_caffe2_fn \<Rightarrow> trace_and_save_fn \<Rightarrow> (string \<times> export_impl) list" where
  "registrations export_caffe2 trace_and_save_torchscript =
     [(''caffe2'', DefaultCaffe2Export export_caffe2),
      (''torchscript_int8@scripting'', DefaultTorchscriptExport trace_and_save_torchscript),
      (''torchscript_int8@tracing'', DefaultTorchscriptExport trace_and_save_torchscript),
      (''torchscript_int8'', DefaultTorchscriptExport trace_and_save_torchscript),
      (''torchscript@scripting'', DefaultTorchscriptExport trace_and_save_torchscript),
      (''torchscript@tracing'', DefaultTorchscriptExport trace_and_save_torchscript),
      (''torchscript'', DefaultTorchscriptExport trace_and_save_torchscript),
      (''torchscript_mobile_int8'', DefaultTorchscriptMobileExport trace_and_save_torchscript),
      (''torchscript_mobile'', DefaultTorchscriptMobileExport trace_and_save_torchscript)]"

definition ModelExportMethodRegistry ::
  "export_caffe2_fn \<Rightarrow> trace_and_save_fn \<Rightarrow> error + Registry" where
  "ModelExportMethodRegistry export_caffe2 trace_and_save_torchscript =
     register_all (Registry ''ModelExportMethod'' True)
       (registrations export_caffe2 trace_and_save_torchscript)"

section \<open>A concrete setting\<close>

text \<open>
  A small world in which the theorems below are exercised: both external exporters
  succeed; the identity of a model decides its hooks (modulo 20, so that the converted
  model keeps the hooks of the original); quantization, fusing and conversion return a
  module with a shifted identity.
\<close>

definition example_export_caffe2 :: export_caffe2_fn where
  "example_export_caffe2 m x save_path kw = Inr ()"

definition example_trace_and_save :: trace_and_save_fn where
  "example_trace_and_save m input_args save_path mobile kw = Inr ()"

definition loaded_registry :: Registry where
  "loaded_registry =
     \<lparr>registry_name = ''ModelExportMethod'',
      obj_map = registrations example_export_caffe2 example_trace_and_save,
      allow_override = True\<rparr>"

definition single_config :: PredictorExportConfig where
  "single_config =
     \<lparr>model = SingleModel (Module 10),
      data_generator = Some (\<lambda>b. Inr (InputsTuple [b])),
      model_export_method = None,
      model_export_kwargs = None,
      preprocess_info = ''IdentityPreprocess'',
      postprocess_info = ''IdentityPostprocess'',
      run_func_info = ''NaiveRunFunc''\<rparr>"

definition mapping_config :: PredictorExportConfig where
  "mapping_config =
     \<lparr>model = ModelDict [(''backbone'', Module 11), (''head'', Module 12)],
      data_generator =
        Some (\<lambda>b. Inr (InputsDict [(''backbone'', [b]), (''head'', [b, b])])),
      model_export_method =
        Some (MethodDict [(''backbone'', ''torchscript''), (''head'', ''torchscript@tracing'')]),
      model_export_kwargs = None,
      preprocess_info = ''IdentityPreprocess'',
      postprocess_info = ''IdentityPostprocess'',
      run_func_info = ''NaiveRunFunc''\<rparr>"

definition missing_key_config :: PredictorExportConfig where
  "missing_key_config =
     mapping_config\<lparr>model_export_method := Some (MethodDict [(''backbone'', ''torchscript'')])\<rparr>"

definition single_value_config :: PredictorExportConfig where
  "single_value_config =
     mapping_config\<lparr>model_export_method := Some (MethodStr ''torchscript@tracing'')\<rparr>"

definition example_hook ::
  "cfg \<Rightarrow> string \<Rightarrow> string \<Rightarrow> batch list \<Rightarrow> world \<Rightarrow> (error + string) \<times> world" where
  "example_hook cfg predictor_type output_dir data_loader w = (Inr (output_dir @ ''/custom''), w)"

definition shifted :: "nat \<Rightarrow> pyobj \<Rightarrow> error + pyobj" where
  "shifted k m = (case m of Module i \<Rightarrow> Inr (Module (i + k)) | NonModule i \<Rightarrow> Inl (ExternalError i))"

definition hook_class :: "pyobj \<Rightarrow> nat" where
  "hook_class m = (case m of Module i \<Rightarrow> i mod 20 | NonModule i \<Rightarrow> 0)"

definition example_env :: env where
  "example_env =
     \<lparr>getcwd = ''/home/user'',
      method_registry = loaded_registry,
      attr_prepare_for_export =
        (\<lambda>m. if hook_class m = 1 then Some (\<lambda>cfg b pt. Inr single_config)
             else if hook_class m = 2 then Some (\<lambda>cfg b pt. Inr mapping_config)
             else if hook_class m = 4 then Some (\<lambda>cfg b pt. Inr missing_key_config)
             else if hook_class m = 5 then Some (\<lambda>cfg b pt. Inr single_value_config)
             else None),
      attr_export_predictor = (\<lambda>m. if hook_class m = 3 then Some example_hook else None),
      attr_prepare_for_quant_convert = (\<lambda>m. None),
      post_training_quantize = (\<lambda>cfg m data_loader. shifted 20 m),
      check_bn_exist = (\<lambda>m. m = Module 26),
      count_bn_exist = (\<lambda>m. if m = Module 42 then 3 else 0),
      fuse_model = shifted 40,
      quantization_convert = shifted 60,
      convert_fx = shifted 80\<rparr>"

definition example_cfg :: cfg where
  "example_cfg =
     \<lparr>QUANTIZATION_QAT_ENABLED = False,
      QUANTIZATION_EAGER_MODE = False,
      QUANTIZATION_BACKEND = ''fbgemm''\<rparr>"

definition empty_world :: world where
  "empty_world = \<lparr>dirs = [], files = [], calls = [], logged = []\<rparr>"


definition mapping_world :: world where
  "mapping_world =
     \<lparr>dirs = [''out/torchscript''],
      files =
        [(''out/torchscript/predictor_info.json'',
          [(''preprocess_info'', FuncInfoArg ''IdentityPreprocess''),
           (''postprocess_info'', FuncInfoArg ''IdentityPostprocess''),
           (''run_func_info'', FuncInfoArg ''NaiveRunFunc''),
           (''models'',
            ModelsArg
              [(''backbone'', \<lparr>path = ''backbone'', type = ''torchscript''\<rparr>),
               (''head'', \<lparr>path = ''head'', type = ''torchscript''\<rparr>)])])],
      calls =
        [\<lparr>call_method = ''torchscript'', call_model = Module 11,
          call_input_args = Some (InputsTuple [7]),
          call_save_path = ''out/torchscript/backbone'', call_kwargs = []\<rparr>,
         \<lparr>call_method = ''torchscript@tracing'', call_model = Module 12,
          call_input_args = Some (InputsTuple [7, 7]),
          call_save_path = ''out/torchscript/head'', call_kwargs = []\<rparr>],
      logged = []\<rparr>"

section \<open>Strings, paths and the registry: basic facts\<close>

text \<open>The substring test is the one of the specification: some prefix and suffix surround the pattern.\<close>

lemma startswith_iff: "startswith s p \<longleftrightarrow> (\<exists>post. s = p @ post)"
  by (induction s p rule: startswith.induct) auto

lemma str_contains_iff: "str_contains sub s \<longleftrightarrow> (\<exists>pre post. s = pre @ sub @ post)"
proof (induction s)
  case Nil
  then show ?case by auto
next
  case (Cons c cs)
  show ?case
  proof
    assume "str_contains sub (c # cs)"
    then consider "startswith (c # cs) sub" | "str_contains sub cs" by auto
    then show "\<exists>pre post. c # cs = pre @ sub @ post"
    proof cases
      case 1
      then obtain post where "c # cs = sub @ post" by (auto simp: startswith_iff)
      then have "c # cs = [] @ sub @ post" by simp
      then show ?thesis by blast
    next
      case 2
      then obtain pre post where "cs = pre @ sub @ post" using Cons.IH by blast
      then have "c # cs = (c # pre) @ sub @ post" by simp
      then show ?thesis by blast
    qed
  next
    assume "\<exists>pre post. c # cs = pre @ sub @ post"
    then obtain pre post where eq: "c # cs = pre @ sub @ post" by blast
    show "str_contains sub (c # cs)"
    proof (cases pre)
      case Nil
      with eq have "startswith (c # cs) sub" by (auto simp: startswith_iff)
      then show ?thesis by simp
    next
      case (Cons a pre')
      with eq have "cs = pre' @ sub @ post" by simp
      then have "str_contains sub cs" using Cons.IH by blast
      then show ?thesis by simp
    qed
  qed
qed



lemma register_keeps_override:
  "register r key impl = Inr r' \<Longrightarrow> allow_override r' = allow_override r"
  by (auto simp: register_def split: if_splits)

lemma get_after_register:
  "register r key impl = Inr r' \<Longrightarrow> get r' key = Inr impl"
  by (auto simp: register_def get_def update_conv' split: if_splits)

lemma key_after_register:
  "register r key impl = Inr r' \<Longrightarrow> key \<in> set (map fst (obj_map r'))"
  by (auto simp: register_def dom_update split: if_splits)

text \<open>Loading the module with the example exporters yields the registry of the nine keys.\<close>

lemma module_registry_loaded:
  "ModelExportMethodRegistry example_export_caffe2 example_trace_and_save = Inr loaded_registry"
  by (simp add: ModelExportMethodRegistry_def registrations_def register_def Registry_def
      loaded_registry_def)

section \<open>The registry contract\<close>

text \<open>
  Claim C4. Registering a key that is already present in the registry (anywhere in it)
  fails with \<open>DuplicateKeyError\<close> when the registry does not allow overriding. When it
  does, the registration succeeds and a subsequent \<open>get\<close> of the key returns the new
  implementation; if the key was present the new implementation replaces the old one:
  the keys of the registry are the same, and every other key still maps to what it mapped
  to.
\<close>

theorem register_duplicate_key:
  "(key \<in> set (map fst (obj_map r)) \<longrightarrow> \<not> allow_override r \<longrightarrow>
      register r key impl = Inl (DuplicateKeyError key)) \<and>
   (allow_override r \<longrightarrow>
      (\<exists>r'. register r key impl = Inr r' \<and> get r' key = Inr impl \<and>
         allow_override r' \<and>
         (key \<in> set (map fst (obj_map r)) \<longrightarrow> map fst (obj_map r') = map fst (obj_map r)) \<and>
         (\<forall>k. k \<noteq> key \<longrightarrow> get r' k = get r k)))"
proof (intro conjI impI)
  assume "key \<in> set (map fst (obj_map r))" and "\<not> allow_override r"
  then show "register r key impl = Inl (DuplicateKeyError key)"
    by (simp add: register_def)
next
  assume ov: "allow_override r"
  let ?r' = "r\<lparr>obj_map := AList.update key impl (obj_map r)\<rparr>"
  have reg: "register r key impl = Inr ?r'"
    using ov by (simp add: register_def)
  have new: "get ?r' key = Inr impl"
    using reg by (rule get_after_register)
  have keys: "map fst (obj_map ?r') = map fst (obj_map r)"
    if "key \<in> set (map fst (obj_map r))"
    using that by (simp add: update_keys)
  have others: "get ?r' k = get r k" if "k \<noteq> key" for k
    using that by (simp add: get_def update_conv')
  show "\<exists>r'. register r key impl = Inr r' \<and> get r' key = Inr impl \<and>
         allow_override r' \<and>
         (key \<in> set (map fst (obj_map r)) \<longrightarrow> map fst (obj_map r') = map fst (obj_map r)) \<and>
         (\<forall>k. k \<noteq> key \<longrightarrow> get r' k = get r k)"
    using reg new ov keys others by (intro exI[of _ ?r']) simp
qed

theorem register_duplicate_key_witness:
  "''caffe2'' \<in> set (map fst (obj_map
       \<lparr>registry_name = ''ModelExportMethod'',
        obj_map = [(''caffe2'', DefaultCaffe2Export example_export_caffe2),
                   (''torchscript'', DefaultTorchscriptExport example_trace_and_save)],
        allow_override = False\<rparr>))
   \<and> register
       \<lparr>registry_name = ''ModelExportMethod'',
        obj_map = [(''caffe2'', DefaultCaffe2Export example_export_caffe2),
                   (''torchscript'', DefaultTorchscriptExport example_trace_and_save)],
        allow_override = False\<rparr>
       ''caffe2'' (DefaultTorchscriptExport example_trace_and_save)
     = Inl (DuplicateKeyError ''caffe2'')
   \<and> allow_override loaded_registry
   \<and> ''torchscript'' \<in> set (map fst (obj_map loaded_registry))
   \<and> (\<exists>r'. register loaded_registry ''torchscript'' (DefaultCaffe2Export example_export_caffe2)
               = Inr r'
          \<and> get r' ''torchscript'' = Inr (DefaultCaffe2Export example_export_caffe2)
          \<and> map fst (obj_map r') = map fst (obj_map loaded_registry)
          \<and> get r' ''caffe2'' = get loaded_registry ''caffe2'')"
proof -
  let ?r = "\<lparr>registry_name = ''ModelExportMethod'',
        obj_map = [(''caffe2'', DefaultCaffe2Export example_export_caffe2),
                   (''torchscript'', DefaultTorchscriptExport example_trace_and_save)],
        allow_override = False\<rparr>"
  have present: "''caffe2'' \<in> set (map fst (obj_map ?r))"
    by simp
  have closed: "\<not> allow_override ?r"
    by simp
  have dup: "register ?r ''caffe2'' (DefaultTorchscriptExport example_trace_and_save)
               = Inl (DuplicateKeyError ''caffe2'')"
    using register_duplicate_key [of "''caffe2''" ?r
        "DefaultTorchscriptExport example_trace_and_save"] present closed
    by blast
  have ov: "allow_override loaded_registry"
    by (simp add: loaded_registry_def)
  have there: "''torchscript'' \<in> set (map fst (obj_map loaded_registry))"
    by (simp add: loaded_registry_def registrations_def)
  have other: "''caffe2'' \<noteq> ''torchscript''"
    by simp
  have "\<exists>r'. register loaded_registry ''torchscript''
                 (DefaultCaffe2Export example_export_caffe2) = Inr r' \<and>
          get r' ''torchscript'' = Inr (DefaultCaffe2Export example_export_caffe2) \<and>
          allow_override r' \<and>
          (''torchscript'' \<in> set (map fst (obj_map loaded_registry)) \<longrightarrow>
             map fst (obj_map r') = map fst (obj_map loaded_registry)) \<and>
          (\<forall>k. k \<noteq> ''torchscript'' \<longrightarrow> get r' k = get loaded_registry k)"
    using register_duplicate_key [of "''torchscript''" loaded_registry
        "DefaultCaffe2Export example_export_caffe2", THEN conjunct2, THEN mp, OF ov] .
  then obtain r' where
    r1: "register loaded_registry ''torchscript''
           (DefaultCaffe2Export example_export_caffe2) = Inr r'" and
    r2: "get r' ''torchscript'' = Inr (DefaultCaffe2Export example_export_caffe2)" and
    r3: "''torchscript'' \<in> set (map fst (obj_map loaded_registry)) \<longrightarrow>
             map fst (obj_map r') = map fst (obj_map loaded_registry)" and
    r4: "\<forall>k. k \<noteq> ''torchscript'' \<longrightarrow> get r' k = get loaded_registry k"
    by (elim exE conjE)
  from r3 there have r5: "map fst (obj_map r') = map fst (obj_map loaded_registry)"
    by (rule mp)
  from r4 have "''caffe2'' \<noteq> ''torchscript'' \<longrightarrow> get r' ''caffe2'' = get loaded_registry ''caffe2''"
    by (rule spec)
  then have r6: "get r' ''caffe2'' = get loaded_registry ''caffe2''"
    using other by (rule mp)
  have repl: "\<exists>r'. register loaded_registry ''torchscript''
                 (DefaultCaffe2Export example_export_caffe2) = Inr r'
          \<and> get r' ''torchscript'' = Inr (DefaultCaffe2Export example_export_caffe2)
          \<and> map fst (obj_map r') = map fst (obj_map loaded_registry)
          \<and> get r' ''caffe2'' = get loaded_registry ''caffe2''"
    using r1 r2 r5 r6 by (intro exI[of _ r'] conjI)
  show ?thesis using present dup ov there repl by (intro conjI)
qed

section \<open>Dispatch\<close>

text \<open>
  Claim C2. A model that exposes \<^verbatim>\<open>export_predictor\<close> is exported by that hook alone,
  called with (cfg, predictor_type, output_dir, data_loader): result and world are
  exactly the hook's, so nothing of the default exporter happens (no batch is drawn, no
  directory made, no export call recorded unless the hook does it). A model without
  the hook is exported by \<open>default_export_predictor\<close>.
\<close>

theorem export_predictor_dispatch:
  "(attr_export_predictor env m = Some f \<longrightarrow>
      export_predictor env cfg m pt od dl w = f cfg pt od dl w) \<and>
   (attr_export_predictor env m = None \<longrightarrow>
      export_predictor env cfg m pt od dl w = default_export_predictor env cfg m pt od dl w)"
  by (simp add: export_predictor_def)

theorem export_predictor_dispatch_witness:
  "attr_export_predictor example_env (Module 3) = Some example_hook
   \<and> export_predictor example_env example_cfg (Module 3) ''torchscript'' ''out'' [7] empty_world
       = (Inr ''out/custom'', empty_world)
   \<and> attr_export_predictor example_env (Module 1) = None
   \<and> export_predictor example_env example_cfg (Module 1) ''torchscript'' ''out'' [7] empty_world
       = default_export_predictor example_env example_cfg (Module 1) ''torchscript'' ''out'' [7]
           empty_world"
proof -
  have hook: "attr_export_predictor example_env (Module 3) = Some example_hook"
    by (simp add: example_env_def hook_class_def)
  have none: "attr_export_predictor example_env (Module 1) = None"
    by (simp add: example_env_def hook_class_def)
  show ?thesis
    using hook none
      export_predictor_dispatch [of example_env "Module 3" example_hook example_cfg
        "''torchscript''" "''out''" "[7]" empty_world]
      export_predictor_dispatch [of example_env "Module 1" example_hook example_cfg
        "''torchscript''" "''out''" "[7]" empty_world]
    by (simp add: example_hook_def)
qed

section \<open>The default exporter\<close>

text \<open>
  Claim C5. With a data loader that yields no batch, \<open>default_export_predictor\<close> raises
  and leaves the world as it was: the batch is drawn (line 185) before the predictor root
  is made (line 194), so no directory is created and nothing is written. The exception is
  \<open>StopIteration\<close> when the model has \<^verbatim>\<open>prepare_for_export\<close>.
\<close>

theorem default_export_predictor_empty_loader:
  "(\<exists>e. default_export_predictor env cfg m pt od [] w = (Inl e, w)) \<and>
   (attr_prepare_for_export env m = Some prep \<longrightarrow>
      default_export_predictor env cfg m pt od [] w = (Inl StopIteration, w))"
  by (simp add: default_export_predictor_def split: option.split)

theorem default_export_predictor_empty_loader_witness:
  "attr_prepare_for_export example_env (Module 1) = Some (\<lambda>cfg b pt. Inr single_config)
   \<and> default_export_predictor example_env example_cfg (Module 1) ''torchscript'' ''out'' []
        empty_world = (Inl StopIteration, empty_world)
   \<and> dirs empty_world = []"
proof -
  have prep: "attr_prepare_for_export example_env (Module 1) = Some (\<lambda>cfg b pt. Inr single_config)"
    by (simp add: example_env_def hook_class_def)
  show ?thesis
    using prep
      default_export_predictor_empty_loader [of example_env example_cfg "Module 1"
        "''torchscript''" "''out''" empty_world "\<lambda>cfg b pt. Inr single_config"]
    by (simp add: empty_world_def)
qed

section \<open>Frame and success lemmas\<close>

text \<open>What the operations on the world leave alone.\<close>

lemma with_dir_fields:
  "files (with_dir p w) = files w" "calls (with_dir p w) = calls w"
  "logged (with_dir p w) = logged w" "p \<in> set (dirs (with_dir p w))"
  by (simp_all add: with_dir_def)

lemma mkdirs_Inr: "mkdirs p w = Inr w1 \<longleftrightarrow> p \<noteq> [] \<and> w1 = with_dir p w"
  by (auto simp: mkdirs_def)

lemma write_file_fields:
  "dirs (write_file p c w) = dirs w" "calls (write_file p c w) = calls w"
  "logged (write_file p c w) = logged w" "map_of (files (write_file p c w)) p = Some c"
  by (simp_all add: write_file_def update_conv')


text \<open>
  The single-model exporter: its three outcomes that matter below. A successful call
  went through the registry, recorded exactly one export call at the save path, and
  returns the relative path of the save path with the predictor type.
\<close>

lemma export_single_model_non_module:
  "export_single_model env pp (NonModule i) ia sp mm kw pt w = (Inl AssertionError, w)"
  by (simp add: export_single_model_def)

lemma export_single_model_returns:
  assumes "get (method_registry env) key = Inr impl" "expand_kwargs kw = Inr d"
    and "impl (Module j) ia sp d = Inr (RetDict l)" "relpath (getcwd env) sp pp = Inr rel"
  shows "export_single_model env pp (Module j) ia sp (MethodStr key) kw pt w =
           (Inr \<lparr>path = rel, type = pt\<rparr>,
            w\<lparr>calls := calls w @ [\<lparr>call_method = key, call_model = Module j,
                  call_input_args = ia, call_save_path = sp, call_kwargs = d\<rparr>]\<rparr>)"
  using assms by (simp add: export_single_model_def)

lemma export_single_model_success:
  assumes "export_single_model env pp m ia sp mm kw pt w = (Inr mi, w')"
  shows "\<exists>key d. mm = MethodStr key \<and> expand_kwargs kw = Inr d \<and>
           relpath (getcwd env) sp pp = Inr (path mi) \<and> type mi = pt \<and>
           w' = w\<lparr>calls := calls w @ [\<lparr>call_method = key, call_model = m,
                  call_input_args = ia, call_save_path = sp, call_kwargs = d\<rparr>]\<rparr>"
  using assms
  by (auto simp: export_single_model_def Let_def
      split: pyobj.splits method_field.splits sum.splits retval.splits)

text \<open>
  The loop over the sub-models, by induction on the items: a successful run records one
  export call per item, in order, at \<open>predictor_path/name\<close>, with the method resolved
  for that name, and touches nothing else; with distinct names the dict it returns has
  one entry per item, in order.
\<close>

lemma export_models_world:
  assumes "export_models env ec mi pp pt items acc w = (Inr res, w')"
  shows "dirs w' = dirs w \<and> files w' = files w \<and> logged w' = logged w \<and>
         (\<exists>cs. calls w' = calls w @ cs \<and>
            map call_save_path cs = map (\<lambda>(n, _). join pp n) items \<and>
            map call_model cs = map snd items \<and>
            map (\<lambda>c. Inr (MethodStr (call_method c))) cs =
              map (\<lambda>(n, _). sub_export_method pt (model_export_method ec) n) items)"
  using assms
proof (induction items arbitrary: acc w)
  case Nil
  then show ?case by simp
next
  case (Cons item rest)
  obtain name sm where item: "item = (name, sm)" by (cases item)
  from Cons.prems item obtain ia mth kw model_info w1 where
    ia: "sub_input_args mi name = Inr ia" and
    mth: "sub_export_method pt (model_export_method ec) name = Inr mth" and
    kw: "sub_export_kwargs (model_export_kwargs ec) name = Inr kw" and
    one: "export_single_model env pp sm ia (join pp name) mth kw pt w = (Inr model_info, w1)" and
    rest: "export_models env ec mi pp pt rest (AList.update name model_info acc) w1 = (Inr res, w')"
    by (auto simp: Let_def split: sum.splits prod.splits)
  from export_single_model_success [OF one] obtain key d where
    key: "mth = MethodStr key" and
    w1: "w1 = w\<lparr>calls := calls w @ [\<lparr>call_method = key, call_model = sm,
                  call_input_args = ia, call_save_path = join pp name, call_kwargs = d\<rparr>]\<rparr>"
    by blast
  from Cons.IH [OF rest] obtain cs where
    same: "dirs w' = dirs w1" "files w' = files w1" "logged w' = logged w1" and
    cs: "calls w' = calls w1 @ cs"
      "map call_save_path cs = map (\<lambda>(n, _). join pp n) rest"
      "map call_model cs = map snd rest"
      "map (\<lambda>c. Inr (MethodStr (call_method c))) cs =
         map (\<lambda>(n, _). sub_export_method pt (model_export_method ec) n) rest"
    by blast
  let ?c = "\<lparr>call_method = key, call_model = sm,
                  call_input_args = ia, call_save_path = join pp name, call_kwargs = d\<rparr>"
  have "calls w' = calls w @ (?c # cs)" using cs(1) w1 by simp
  moreover have "map call_save_path (?c # cs) = map (\<lambda>(n, _). join pp n) (item # rest)"
    using cs(2) item by simp
  moreover have "map call_model (?c # cs) = map snd (item # rest)"
    using cs(3) item by simp
  moreover have "map (\<lambda>c. Inr (MethodStr (call_method c))) (?c # cs) =
         map (\<lambda>(n, _). sub_export_method pt (model_export_method ec) n) (item # rest)"
    using cs(4) item mth key by simp
  ultimately show ?case using same w1 by (intro conjI exI[of _ "?c # cs"]) simp_all
qed





lemma example_mapping_run:
  "default_export_predictor example_env example_cfg (Module 2) ''torchscript'' ''out'' [7]
     empty_world = (Inr ''out/torchscript'', mapping_world)"
  by code_simp


lemma example_mapping_prepare:
  "attr_prepare_for_export example_env (Module 2) = Some (\<lambda>cfg b pt. Inr mapping_config)"
  by (simp add: example_env_def hook_class_def)

section \<open>Layout of the exported predictor\<close>





section \<open>The contract of the single-model exporter\<close>

text \<open>
  Every step a successful call of the single-model exporter has taken: the model is a
  module, the method is a string under which the registry holds an implementation, the
  keyword arguments expand, the implementation applied to the model, the inputs, the save
  path and the keyword arguments returned a dict, and the relative path exists.
\<close>

lemma export_single_model_success_steps:
  assumes "export_single_model env pp m ia sp mm kw pt w = (Inr mi, w')"
  shows "\<exists>j key impl d l. m = Module j \<and> mm = MethodStr key \<and>
           get (method_registry env) key = Inr impl \<and> expand_kwargs kw = Inr d \<and>
           impl m ia sp d = Inr (RetDict l) \<and>
           relpath (getcwd env) sp pp = Inr (path mi) \<and> type mi = pt \<and>
           w' = w\<lparr>calls := calls w @ [\<lparr>call_method = key, call_model = m,
                  call_input_args = ia, call_save_path = sp, call_kwargs = d\<rparr>]\<rparr>"
  using assms
  by (auto simp: export_single_model_def Let_def
      split: pyobj.splits method_field.splits sum.splits retval.splits)

text \<open>
  Claim C8. For every call, \<open>export_single_model\<close> fails at its first statement, with the
  \<open>AssertionError\<close> of \<^verbatim>\<open>assert isinstance(model, nn.Module)\<close> (the specification's
  \<^verbatim>\<open>TypeConstraintError\<close>) and without touching the world, when the model is not an
  \<^verbatim>\<open>nn.Module\<close>. For a module, when the method is registered, the keyword arguments
  expand, the implementation returns a dict and the relative path exists, it records the
  export call and returns the Model Info whose path is the save path relative to the
  predictor root and whose type is the predictor type. Conversely every successful call
  has looked the method up in the registry, has invoked the export capability registered
  under it (on the model, the inputs, the save path and the expanded keyword arguments),
  which returned a dict, has recorded exactly that call, and returns the Model Info of the
  relative path and the predictor type.
\<close>

theorem export_single_model_contract:
  "export_single_model env pp (NonModule i) ia sp mm kw pt w = (Inl AssertionError, w) \<and>
   (get (method_registry env) key = Inr impl \<longrightarrow> expand_kwargs kw = Inr d \<longrightarrow>
    impl (Module j) ia sp d = Inr (RetDict l) \<longrightarrow> relpath (getcwd env) sp pp = Inr rel \<longrightarrow>
      export_single_model env pp (Module j) ia sp (MethodStr key) kw pt w =
        (Inr \<lparr>path = rel, type = pt\<rparr>,
         w\<lparr>calls := calls w @ [\<lparr>call_method = key, call_model = Module j,
               call_input_args = ia, call_save_path = sp, call_kwargs = d\<rparr>]\<rparr>)) \<and>
   (export_single_model env pp m ia sp mm kw pt w = (Inr mi, w') \<longrightarrow>
      (\<exists>j' key' impl' d' l'. m = Module j' \<and> mm = MethodStr key' \<and>
         get (method_registry env) key' = Inr impl' \<and> expand_kwargs kw = Inr d' \<and>
         impl' m ia sp d' = Inr (RetDict l') \<and>
         relpath (getcwd env) sp pp = Inr (path mi) \<and> type mi = pt \<and>
         w' = w\<lparr>calls := calls w @ [\<lparr>call_method = key', call_model = m,
                call_input_args = ia, call_save_path = sp, call_kwargs = d'\<rparr>]\<rparr>))"
proof (intro conjI impI)
  show "export_single_model env pp (NonModule i) ia sp mm kw pt w = (Inl AssertionError, w)"
    by (rule export_single_model_non_module)
next
  assume "get (method_registry env) key = Inr impl" "expand_kwargs kw = Inr d"
    "impl (Module j) ia sp d = Inr (RetDict l)" "relpath (getcwd env) sp pp = Inr rel"
  then show "export_single_model env pp (Module j) ia sp (MethodStr key) kw pt w =
        (Inr \<lparr>path = rel, type = pt\<rparr>,
         w\<lparr>calls := calls w @ [\<lparr>call_method = key, call_model = Module j,
               call_input_args = ia, call_save_path = sp, call_kwargs = d\<rparr>]\<rparr>)"
    by (rule export_single_model_returns)
next
  assume "export_single_model env pp m ia sp mm kw pt w = (Inr mi, w')"
  then show "\<exists>j' key' impl' d' l'. m = Module j' \<and> mm = MethodStr key' \<and>
         get (method_registry env) key' = Inr impl' \<and> expand_kwargs kw = Inr d' \<and>
         impl' m ia sp d' = Inr (RetDict l') \<and>
         relpath (getcwd env) sp pp = Inr (path mi) \<and> type mi = pt \<and>
         w' = w\<lparr>calls := calls w @ [\<lparr>call_method = key', call_model = m,
                call_input_args = ia, call_save_path = sp, call_kwargs = d'\<rparr>]\<rparr>"
    by (rule export_single_model_success_steps)
qed

theorem export_single_model_contract_witness:
  "export_single_model example_env ''out/torchscript'' (NonModule 0) (Some (InputsTuple [7]))
      ''out/torchscript/backbone'' (MethodStr ''torchscript'') (KwDict []) ''torchscript''
      empty_world = (Inl AssertionError, empty_world)
   \<and> get (method_registry example_env) ''torchscript''
       = Inr (DefaultTorchscriptExport example_trace_and_save)
   \<and> expand_kwargs (KwDict []) = Inr []
   \<and> DefaultTorchscriptExport example_trace_and_save (Module 11) (Some (InputsTuple [7]))
        ''out/torchscript/backbone'' [] = Inr (RetDict [])
   \<and> relpath (getcwd example_env) ''out/torchscript/backbone'' ''out/torchscript''
       = Inr ''backbone''
   \<and> export_single_model example_env ''out/torchscript'' (Module 11) (Some (InputsTuple [7]))
      ''out/torchscript/backbone'' (MethodStr ''torchscript'') (KwDict []) ''torchscript''
      empty_world
       = (Inr \<lparr>path = ''backbone'', type = ''torchscript''\<rparr>,
          empty_world\<lparr>calls := calls empty_world @
            [\<lparr>call_method = ''torchscript'', call_model = Module 11,
              call_input_args = Some (InputsTuple [7]),
              call_save_path = ''out/torchscript/backbone'', call_kwargs = []\<rparr>]\<rparr>)
   \<and> (\<exists>j' key' impl' d' l'. Module 11 = Module j' \<and> MethodStr ''torchscript'' = MethodStr key' \<and>
         get (method_registry example_env) key' = Inr impl' \<and>
         expand_kwargs (KwDict []) = Inr d' \<and>
         impl' (Module 11) (Some (InputsTuple [7])) ''out/torchscript/backbone'' d'
           = Inr (RetDict l') \<and>
         relpath (getcwd example_env) ''out/torchscript/backbone'' ''out/torchscript''
           = Inr (path \<lparr>path = ''backbone'', type = ''torchscript''\<rparr>) \<and>
         type \<lparr>path = ''backbone'', type = ''torchscript''\<rparr> = ''torchscript'' \<and>
         empty_world\<lparr>calls := calls empty_world @
            [\<lparr>call_method = ''torchscript'', call_model = Module 11,
              call_input_args = Some (InputsTuple [7]),
              call_save_path = ''out/torchscript/backbone'', call_kwargs = []\<rparr>]\<rparr>
          = empty_world\<lparr>calls := calls empty_world @
              [\<lparr>call_method = key', call_model = Module 11,
                call_input_args = Some (InputsTuple [7]),
                call_save_path = ''out/torchscript/backbone'', call_kwargs = d'\<rparr>]\<rparr>)"
proof -
  let ?w' = "empty_world\<lparr>calls := calls empty_world @
            [\<lparr>call_method = ''torchscript'', call_model = Module 11,
              call_input_args = Some (InputsTuple [7]),
              call_save_path = ''out/torchscript/backbone'', call_kwargs = []\<rparr>]\<rparr>"
  have g: "get (method_registry example_env) ''torchscript''
       = Inr (DefaultTorchscriptExport example_trace_and_save)"
    by (simp add: example_env_def loaded_registry_def registrations_def get_def)
  have k: "expand_kwargs (KwDict []) = Inr []"
    by (simp add: expand_kwargs_def)
  have e: "DefaultTorchscriptExport example_trace_and_save (Module 11) (Some (InputsTuple [7]))
        ''out/torchscript/backbone'' [] = Inr (RetDict [])"
    by (simp add: DefaultTorchscriptExport_def example_trace_and_save_def)
  have r: "relpath (getcwd example_env) ''out/torchscript/backbone'' ''out/torchscript''
       = Inr ''backbone''"
    by code_simp
  note t = export_single_model_contract [where env = example_env and pp = "''out/torchscript''"
      and i = 0 and ia = "Some (InputsTuple [7])" and sp = "''out/torchscript/backbone''"
      and mm = "MethodStr ''torchscript''" and kw = "KwDict []" and pt = "''torchscript''"
      and w = empty_world and key = "''torchscript''"
      and impl = "DefaultTorchscriptExport example_trace_and_save" and d = "[]" and j = 11
      and l = "[]" and rel = "''backbone''" and m = "Module 11"
      and mi = "\<lparr>path = ''backbone'', type = ''torchscript''\<rparr>" and w' = ?w']
  have a: "export_single_model example_env ''out/torchscript'' (NonModule 0)
      (Some (InputsTuple [7])) ''out/torchscript/backbone'' (MethodStr ''torchscript'')
      (KwDict []) ''torchscript'' empty_world = (Inl AssertionError, empty_world)"
    using t by (rule conjunct1)
  have b: "export_single_model example_env ''out/torchscript'' (Module 11)
      (Some (InputsTuple [7])) ''out/torchscript/backbone'' (MethodStr ''torchscript'')
      (KwDict []) ''torchscript'' empty_world
       = (Inr \<lparr>path = ''backbone'', type = ''torchscript''\<rparr>, ?w')"
    using t [THEN conjunct2, THEN conjunct1, THEN mp, OF g, THEN mp, OF k, THEN mp, OF e,
        THEN mp, OF r] .
  have c: "\<exists>j' key' impl' d' l'. Module 11 = Module j' \<and> MethodStr ''torchscript'' = MethodStr key' \<and>
         get (method_registry example_env) key' = Inr impl' \<and>
         expand_kwargs (KwDict []) = Inr d' \<and>
         impl' (Module 11) (Some (InputsTuple [7])) ''out/torchscript/backbone'' d'
           = Inr (RetDict l') \<and>
         relpath (getcwd example_env) ''out/torchscript/backbone'' ''out/torchscript''
           = Inr (path \<lparr>path = ''backbone'', type = ''torchscript''\<rparr>) \<and>
         type \<lparr>path = ''backbone'', type = ''torchscript''\<rparr> = ''torchscript'' \<and>
         ?w' = empty_world\<lparr>calls := calls empty_world @
              [\<lparr>call_method = key', call_model = Module 11,
                call_input_args = Some (InputsTuple [7]),
                call_save_path = ''out/torchscript/backbone'', call_kwargs = d'\<rparr>]\<rparr>"
    using t [THEN conjunct2, THEN conjunct2, THEN mp, OF b] .
  show ?thesis using a g k e r b c by (intro conjI)
qed

section \<open>Resolving the export method of a sub-model\<close>

text \<open>
  A successful default export of a mapping went through the loop, and a successful loop
  resolved the export method of every name it met.
\<close>

lemma default_export_predictor_mapping_loop:
  assumes "attr_prepare_for_export env m = Some prep" and "prep cfg b pt = Inr ec"
    and "model ec = ModelDict d"
    and "default_export_predictor env cfg m pt od (b # bs) w = (Inr p, w')"
  shows "\<exists>model_inputs mis w2.
           export_models env ec model_inputs (join od pt) pt d [] (with_dir (join od pt) w)
             = (Inr mis, w2)"
  using assms
  by (auto simp: default_export_predictor_def Let_def mkdirs_Inr split: sum.splits prod.splits)

lemma export_models_methods_resolved:
  assumes "export_models env ec mi pp pt items acc w = (Inr res, w')"
    and "(name, sm) \<in> set items"
  shows "\<exists>key. sub_export_method pt (model_export_method ec) name = Inr (MethodStr key)"
proof -
  from export_models_world [OF assms(1)] obtain cs :: "export_call list" where
    eq: "map (\<lambda>c. Inr (MethodStr (call_method c))) cs =
           map (\<lambda>(n, _). sub_export_method pt (model_export_method ec) n) items"
    by auto
  have "sub_export_method pt (model_export_method ec) name
          \<in> set (map (\<lambda>(n, _). sub_export_method pt (model_export_method ec) n) items)"
    using assms(2) by force
  with eq have "sub_export_method pt (model_export_method ec) name
          \<in> set (map (\<lambda>c. Inr (MethodStr (call_method c))) cs)"
    by simp
  then show ?thesis by auto
qed

lemma example_missing_key_prepare:
  "attr_prepare_for_export example_env (Module 4) = Some (\<lambda>cfg b pt. Inr missing_key_config)"
  by (simp add: example_env_def hook_class_def)

text \<open>The loop of the example mapping export, evaluated.\<close>

lemma example_loop_run:
  "export_models example_env mapping_config
     (Some (InputsDict [(''backbone'', [7]), (''head'', [7, 7])]))
     ''out/torchscript'' ''torchscript''
     [(''backbone'', Module 11), (''head'', Module 12)] [] empty_world
   = (Inr [(''backbone'', \<lparr>path = ''backbone'', type = ''torchscript''\<rparr>),
           (''head'', \<lparr>path = ''head'', type = ''torchscript''\<rparr>)],
      empty_world\<lparr>calls := calls mapping_world\<rparr>)"
  by code_simp

text \<open>
  Claim C9. In the mapping case, when \<open>model_export_method\<close> is a mapping that lacks a
  name of the model mapping, the lookup \<^verbatim>\<open>export_config.model_export_method[name]\<close> raises
  \<open>KeyError name\<close> (the specification's \<^verbatim>\<open>KeyNotFoundError\<close>); the default exporter then
  never succeeds, and the loop raises exactly this error, with the world as it found it,
  as soon as it reaches the name (the input arguments of the name being available).
\<close>

theorem missing_method_key_raises:
  assumes "attr_prepare_for_export env m = Some prep" and "prep cfg b pt = Inr ec"
    and "model ec = ModelDict d" and "model_export_method ec = Some (MethodDict md)"
    and "(name, sm) \<in> set d" and "map_of md name = None"
  shows "sub_export_method pt (model_export_method ec) name = Inl (KeyError name) \<and>
         (\<exists>e w'. default_export_predictor env cfg m pt od (b # bs) w = (Inl e, w')) \<and>
         (\<forall>ia. sub_input_args mi name = Inr ia \<longrightarrow>
            export_models env ec mi pp pt ((name, sm) # rest) acc w0 = (Inl (KeyError name), w0))"
proof -
  have lookup: "sub_export_method pt (model_export_method ec) name = Inl (KeyError name)"
    using assms(4,6) by (simp add: sub_export_method_def)
  have fails: "\<exists>e w'. default_export_predictor env cfg m pt od (b # bs) w = (Inl e, w')"
  proof (cases "default_export_predictor env cfg m pt od (b # bs) w")
    case (Pair r w')
    show ?thesis
    proof (cases r)
      case (Inl e)
      with Pair show ?thesis by blast
    next
      case (Inr p)
      with Pair have ok: "default_export_predictor env cfg m pt od (b # bs) w = (Inr p, w')"
        by simp
      from default_export_predictor_mapping_loop [OF assms(1,2,3) ok]
      obtain model_inputs mis w2 where
        "export_models env ec model_inputs (join od pt) pt d [] (with_dir (join od pt) w)
           = (Inr mis, w2)"
        by blast
      from export_models_methods_resolved [OF this assms(5)] lookup
      show ?thesis by simp
    qed
  qed
  have first: "\<forall>ia. sub_input_args mi name = Inr ia \<longrightarrow>
            export_models env ec mi pp pt ((name, sm) # rest) acc w0 = (Inl (KeyError name), w0)"
    using lookup by (simp add: Let_def)
  from lookup fails first show ?thesis by blast
qed

theorem missing_method_key_raises_witness:
  "attr_prepare_for_export example_env (Module 4) = Some (\<lambda>cfg b pt. Inr missing_key_config)
   \<and> model missing_key_config = ModelDict [(''backbone'', Module 11), (''head'', Module 12)]
   \<and> model_export_method missing_key_config = Some (MethodDict [(''backbone'', ''torchscript'')])
   \<and> map_of [(''backbone'', ''torchscript'')] ''head'' = None
   \<and> sub_export_method ''torchscript'' (model_export_method missing_key_config) ''head''
        = Inl (KeyError ''head'')
   \<and> (\<exists>e w'. default_export_predictor example_env example_cfg (Module 4) ''torchscript''
                 ''out'' [7] empty_world = (Inl e, w'))
   \<and> sub_input_args None ''head'' = Inr None
   \<and> export_models example_env missing_key_config None ''out/torchscript'' ''torchscript''
        [(''head'', Module 12)] [] empty_world = (Inl (KeyError ''head''), empty_world)
   \<and> fst (default_export_predictor example_env example_cfg (Module 4) ''torchscript''
            ''out'' [7] empty_world) = Inl (KeyError ''head'')"
proof -
  have c: "(\<lambda>cfg b pt. Inr missing_key_config) example_cfg 7 ''torchscript''
             = Inr missing_key_config"
    by simp
  have md: "model missing_key_config = ModelDict [(''backbone'', Module 11), (''head'', Module 12)]"
    by (simp add: missing_key_config_def mapping_config_def)
  have mm: "model_export_method missing_key_config
              = Some (MethodDict [(''backbone'', ''torchscript'')])"
    by (simp add: missing_key_config_def)
  have mem: "(''head'', Module 12) \<in> set [(''backbone'', Module 11), (''head'', Module 12)]"
    by simp
  have none: "map_of [(''backbone'', ''torchscript'')] ''head'' = None"
    by simp
  have ia: "sub_input_args None ''head'' = Inr None"
    by (simp add: sub_input_args_def)
  have run: "fst (default_export_predictor example_env example_cfg (Module 4) ''torchscript''
            ''out'' [7] empty_world) = Inl (KeyError ''head'')"
    by code_simp
  note t = missing_method_key_raises [OF example_missing_key_prepare c md mm mem none,
      where od = "''out''" and bs = "[]" and w = empty_world and mi = None
        and pp = "''out/torchscript''" and rest = "[]" and acc = "[]" and ?w0.0 = empty_world]
  from t have a: "sub_export_method ''torchscript'' (model_export_method missing_key_config)
        ''head'' = Inl (KeyError ''head'')"
    by blast
  from t have b: "\<exists>e w'. default_export_predictor example_env example_cfg (Module 4)
        ''torchscript'' ''out'' [7] empty_world = (Inl e, w')"
    by blast
  from t ia have l: "export_models example_env missing_key_config None ''out/torchscript''
        ''torchscript'' [(''head'', Module 12)] [] empty_world
          = (Inl (KeyError ''head''), empty_world)"
    by blast
  show ?thesis using example_missing_key_prepare md mm none a b ia l run by blast
qed

text \<open>
  The three-way fallback of claim C3 does not hold in the mapping case: a configuration
  with a mapping of two sub-models and the single value \<^verbatim>\<open>torchscript@tracing\<close> as
  \<open>model_export_method\<close> is not exported with that value; indexing the string with the
  name raises \<open>TypeError\<close> after the predictor root is made and before any export call.
\<close>

theorem single_value_method_counterexample:
  "attr_prepare_for_export example_env (Module 5) = Some (\<lambda>cfg b pt. Inr single_value_config)
   \<and> model single_value_config = ModelDict [(''backbone'', Module 11), (''head'', Module 12)]
   \<and> model_export_method single_value_config = Some (MethodStr ''torchscript@tracing'')
   \<and> sub_export_method ''torchscript'' (model_export_method single_value_config) ''backbone''
        = Inl TypeError
   \<and> sub_export_method ''torchscript'' (model_export_method single_value_config) ''backbone''
        \<noteq> Inr (MethodStr ''torchscript@tracing'')
   \<and> default_export_predictor example_env example_cfg (Module 5) ''torchscript'' ''out'' [7]
        empty_world
        = (Inl TypeError,
           \<lparr>dirs = [''out/torchscript''], files = [], calls = [], logged = []\<rparr>)"
proof -
  have a: "attr_prepare_for_export example_env (Module 5)
             = Some (\<lambda>cfg b pt. Inr single_value_config)"
    by (simp add: example_env_def hook_class_def)
  have b: "model single_value_config
             = ModelDict [(''backbone'', Module 11), (''head'', Module 12)]"
    by (simp add: single_value_config_def mapping_config_def)
  have c: "model_export_method single_value_config = Some (MethodStr ''torchscript@tracing'')"
    by (simp add: single_value_config_def)
  have d: "sub_export_method ''torchscript'' (model_export_method single_value_config)
             ''backbone'' = Inl TypeError"
    by (simp add: c sub_export_method_def)
  have e: "default_export_predictor example_env example_cfg (Module 5) ''torchscript'' ''out''
             [7] empty_world
        = (Inl TypeError,
           \<lparr>dirs = [''out/torchscript''], files = [], calls = [], logged = []\<rparr>)"
    by code_simp
  show ?thesis using a b c d e by simp
qed

text \<open>Every successful default export of a mapping made its export calls in the loop.\<close>

lemma default_export_predictor_mapping_calls:
  assumes "attr_prepare_for_export env m = Some prep" and "prep cfg b pt = Inr ec"
    and "model ec = ModelDict d"
    and "default_export_predictor env cfg m pt od (b # bs) w = (Inr p, w')"
  shows "\<exists>cs. calls w' = calls w @ cs \<and>
           map (\<lambda>c. Inr (MethodStr (call_method c))) cs =
             map (\<lambda>(n, _). sub_export_method pt (model_export_method ec) n) d"
proof -
  let ?p = "join od pt"
  from assms obtain model_inputs mis w2 where
    loop: "export_models env ec model_inputs ?p pt d [] (with_dir ?p w) = (Inr mis, w2)" and
    fin: "write_predictor_info ?p
            (AList.update ''models'' (ModelsArg mis)
               [(''preprocess_info'', FuncInfoArg (preprocess_info ec)),
                (''postprocess_info'', FuncInfoArg (postprocess_info ec)),
                (''run_func_info'', FuncInfoArg (run_func_info ec))]) w2 = (Inr p, w')"
    by (auto simp: default_export_predictor_def Let_def mkdirs_Inr split: sum.splits prod.splits)
  from export_models_world [OF loop] obtain cs where
    cs: "calls w2 = calls (with_dir ?p w) @ cs"
      "map (\<lambda>c. Inr (MethodStr (call_method c))) cs =
         map (\<lambda>(n, _). sub_export_method pt (model_export_method ec) n) d"
    by auto
  from fin have "calls w' = calls w2"
    by (auto simp: write_predictor_info_def write_file_fields)
  with cs have "calls w' = calls w @ cs"
    by (simp add: with_dir_fields)
  with cs(2) show ?thesis by blast
qed

text \<open>
  Claim C3, as amended. In the mapping case the export method of a sub-model is resolved
  two ways: \<open>predictor_type\<close> when \<open>model_export_method\<close> is absent, otherwise the value
  the mapping \<open>model_export_method\<close> holds for the name of the sub-model (a missing name
  raises \<open>KeyError\<close>); a single (non-mapping) value is not accepted there, the lookup
  raises \<open>TypeError\<close>. A successful loop, and so every successful default export of a
  mapping, has made its export calls with exactly the methods so resolved, one per
  sub-model, in order.
\<close>

theorem sub_export_method_resolution:
  "sub_export_method pt None name = Inr (MethodStr pt) \<and>
   (map_of md name = Some s \<longrightarrow>
      sub_export_method pt (Some (MethodDict md)) name = Inr (MethodStr s)) \<and>
   (map_of md name = None \<longrightarrow>
      sub_export_method pt (Some (MethodDict md)) name = Inl (KeyError name)) \<and>
   sub_export_method pt (Some (MethodStr v)) name = Inl TypeError \<and>
   (export_models env ec mi pp pt items acc w = (Inr res, w') \<longrightarrow>
      (\<exists>cs. calls w' = calls w @ cs \<and>
         map (\<lambda>c. Inr (MethodStr (call_method c))) cs =
           map (\<lambda>(n, _). sub_export_method pt (model_export_method ec) n) items)) \<and>
   (attr_prepare_for_export env m = Some prep \<longrightarrow> prep cfg b pt = Inr ec \<longrightarrow>
    model ec = ModelDict d \<longrightarrow>
    default_export_predictor env cfg m pt od (b # bs) w = (Inr p, w'') \<longrightarrow>
      (\<exists>cs. calls w'' = calls w @ cs \<and>
         map (\<lambda>c. Inr (MethodStr (call_method c))) cs =
           map (\<lambda>(n, _). sub_export_method pt (model_export_method ec) n) d))"
proof (intro conjI impI)
  show "sub_export_method pt None name = Inr (MethodStr pt)"
    by (simp add: sub_export_method_def)
  show "sub_export_method pt (Some (MethodStr v)) name = Inl TypeError"
    by (simp add: sub_export_method_def)
next
  assume "map_of md name = Some s"
  then show "sub_export_method pt (Some (MethodDict md)) name = Inr (MethodStr s)"
    by (simp add: sub_export_method_def)
next
  assume "map_of md name = None"
  then show "sub_export_method pt (Some (MethodDict md)) name = Inl (KeyError name)"
    by (simp add: sub_export_method_def)
next
  assume "attr_prepare_for_export env m = Some prep" "prep cfg b pt = Inr ec"
    "model ec = ModelDict d"
    "default_export_predictor env cfg m pt od (b # bs) w = (Inr p, w'')"
  then show "\<exists>cs. calls w'' = calls w @ cs \<and>
         map (\<lambda>c. Inr (MethodStr (call_method c))) cs =
           map (\<lambda>(n, _). sub_export_method pt (model_export_method ec) n) d"
    by (rule default_export_predictor_mapping_calls)
next
  assume "export_models env ec mi pp pt items acc w = (Inr res, w')"
  from export_models_world [OF this]
  show "\<exists>cs. calls w' = calls w @ cs \<and>
         map (\<lambda>c. Inr (MethodStr (call_method c))) cs =
           map (\<lambda>(n, _). sub_export_method pt (model_export_method ec) n) items"
    by blast
qed

theorem sub_export_method_resolution_witness:
  "sub_export_method ''torchscript'' None ''head'' = Inr (MethodStr ''torchscript'')
   \<and> map_of [(''backbone'', ''torchscript''), (''head'', ''torchscript@tracing'')] ''head''
        = Some ''torchscript@tracing''
   \<and> sub_export_method ''torchscript''
        (Some (MethodDict [(''backbone'', ''torchscript''), (''head'', ''torchscript@tracing'')]))
        ''head'' = Inr (MethodStr ''torchscript@tracing'')
   \<and> sub_export_method ''torchscript'' (Some (MethodStr ''torchscript@tracing'')) ''head''
        = Inl TypeError
   \<and> (\<exists>cs. calls (empty_world\<lparr>calls := calls mapping_world\<rparr>) = calls empty_world @ cs \<and>
         map (\<lambda>c. Inr (MethodStr (call_method c))) cs =
           map (\<lambda>(n, _). sub_export_method ''torchscript'' (model_export_method mapping_config) n)
             [(''backbone'', Module 11), (''head'', Module 12)])
   \<and> default_export_predictor example_env example_cfg (Module 2) ''torchscript'' ''out'' [7]
        empty_world = (Inr ''out/torchscript'', mapping_world)
   \<and> (\<exists>cs. calls mapping_world = calls empty_world @ cs \<and>
         map (\<lambda>c. Inr (MethodStr (call_method c))) cs =
           map (\<lambda>(n, _). sub_export_method ''torchscript'' (model_export_method mapping_config) n)
             [(''backbone'', Module 11), (''head'', Module 12)])"
proof -
  have look: "map_of [(''backbone'', ''torchscript''), (''head'', ''torchscript@tracing'')]
                ''head'' = Some ''torchscript@tracing''"
    by simp
  have c2: "(\<lambda>cfg b pt. Inr mapping_config) example_cfg 7 ''torchscript'' = Inr mapping_config"
    by simp
  have m2: "model mapping_config = ModelDict [(''backbone'', Module 11), (''head'', Module 12)]"
    by (simp add: mapping_config_def)
  note t = sub_export_method_resolution [where pt = "''torchscript''" and name = "''head''"
      and md = "[(''backbone'', ''torchscript''), (''head'', ''torchscript@tracing'')]"
      and s = "''torchscript@tracing''" and v = "''torchscript@tracing''"
      and env = example_env and ec = mapping_config
      and mi = "Some (InputsDict [(''backbone'', [7]), (''head'', [7, 7])])"
      and pp = "''out/torchscript''"
      and items = "[(''backbone'', Module 11), (''head'', Module 12)]" and acc = "[]"
      and w = empty_world
      and res = "[(''backbone'', \<lparr>path = ''backbone'', type = ''torchscript''\<rparr>),
        (''head'', \<lparr>path = ''head'', type = ''torchscript''\<rparr>)]"
      and w' = "empty_world\<lparr>calls := calls mapping_world\<rparr>"
      and m = "Module 2" and prep = "\<lambda>cfg b pt. Inr mapping_config" and cfg = example_cfg
      and b = 7 and bs = "[]" and od = "''out''"
      and d = "[(''backbone'', Module 11), (''head'', Module 12)]"
      and p = "''out/torchscript''" and w'' = mapping_world]
  have a: "sub_export_method ''torchscript'' None ''head'' = Inr (MethodStr ''torchscript'')"
    using t by (rule conjunct1)
  have b: "sub_export_method ''torchscript''
        (Some (MethodDict [(''backbone'', ''torchscript''), (''head'', ''torchscript@tracing'')]))
        ''head'' = Inr (MethodStr ''torchscript@tracing'')"
    using t [THEN conjunct2, THEN conjunct1, THEN mp, OF look] .
  have c: "sub_export_method ''torchscript'' (Some (MethodStr ''torchscript@tracing''))
        ''head'' = Inl TypeError"
    using t [THEN conjunct2, THEN conjunct2, THEN conjunct2, THEN conjunct1] .
  have d: "\<exists>cs. calls (empty_world\<lparr>calls := calls mapping_world\<rparr>)
          = calls empty_world @ cs \<and>
         map (\<lambda>c. Inr (MethodStr (call_method c))) cs =
           map (\<lambda>(n, _). sub_export_method ''torchscript'' (model_export_method mapping_config) n)
             [(''backbone'', Module 11), (''head'', Module 12)]"
    using t [THEN conjunct2, THEN conjunct2, THEN conjunct2, THEN conjunct2, THEN conjunct1,
        THEN mp, OF example_loop_run] .
  have e: "\<exists>cs. calls mapping_world = calls empty_world @ cs \<and>
         map (\<lambda>c. Inr (MethodStr (call_method c))) cs =
           map (\<lambda>(n, _). sub_export_method ''torchscript'' (model_export_method mapping_config) n)
             [(''backbone'', Module 11), (''head'', Module 12)]"
    using t [THEN conjunct2, THEN conjunct2, THEN conjunct2, THEN conjunct2, THEN conjunct2,
        THEN mp, OF example_mapping_prepare, THEN mp, OF c2, THEN mp, OF m2,
        THEN mp, OF example_mapping_run] .
  show ?thesis using a look b c d example_mapping_run e by (intro conjI)
qed

section \<open>The entry point: quantization and fusing\<close>






text \<open>The predictor type \<^verbatim>\<open>torchscript\<close> does not contain \<^verbatim>\<open>int8\<close>.\<close>

lemma example_not_int8: "\<not> (\<exists>pre post. ''torchscript'' = pre @ ''int8'' @ post)"
proof -
  have "\<not> str_contains ''int8'' ''torchscript''" by code_simp
  then show ?thesis by (simp only: str_contains_iff not_False_eq_True)
qed

text \<open>
  Claim C6. \<open>convert_and_export_predictor\<close> takes the quantization path exactly when
  \<^verbatim>\<open>int8\<close> occurs as a substring of the predictor type. On that path, when the model was
  not quantization-aware-trained, post-training quantization runs first with the data
  loader: its exception is the result; if batch normalization is left in its output the
  assertion fails, before any conversion or export; otherwise the conversion is applied
  to the output of the post-training quantization, and the converted model is exported.
  When the model was quantization-aware-trained, the path is the same without the first
  step: no post-training quantization and no assertion, the conversion is applied to the
  model itself, and the converted model is exported. Without the substring no
  quantization function is called: the model is fused and exported.
\<close>

theorem convert_and_export_int8_path:
  "((\<exists>pre post. pt = pre @ ''int8'' @ post) \<longrightarrow> \<not> QUANTIZATION_QAT_ENABLED cfg \<longrightarrow>
      (\<forall>e. post_training_quantize env cfg m dl = Inl e \<longrightarrow>
         convert_and_export_predictor env cfg m pt od dl w = (Inl e, info RunningPTQ w)) \<and>
      (\<forall>q. post_training_quantize env cfg m dl = Inr q \<longrightarrow> check_bn_exist env q \<longrightarrow>
         convert_and_export_predictor env cfg m pt od dl w
           = (Inl AssertionError, info RunningPTQ w)) \<and>
      (\<forall>q. post_training_quantize env cfg m dl = Inr q \<longrightarrow> \<not> check_bn_exist env q \<longrightarrow>
         convert_and_export_predictor env cfg m pt od dl w
           = (case (if QUANTIZATION_EAGER_MODE cfg then quantization_convert env q
                    else (case attr_prepare_for_quant_convert env q of
                            Some f \<Rightarrow> f cfg
                          | None \<Rightarrow> convert_fx env q)) of
                Inl e \<Rightarrow>
                  (Inl e, info (ConvertingQuantized (QUANTIZATION_BACKEND cfg))
                            (info RunningPTQ w))
              | Inr c \<Rightarrow>
                  export_predictor env cfg c pt od dl
                    (info (QuantizedModel c)
                       (info (ConvertingQuantized (QUANTIZATION_BACKEND cfg))
                          (info RunningPTQ w)))))) \<and>
   ((\<exists>pre post. pt = pre @ ''int8'' @ post) \<longrightarrow> QUANTIZATION_QAT_ENABLED cfg \<longrightarrow>
      convert_and_export_predictor env cfg m pt od dl w
        = (case (if QUANTIZATION_EAGER_MODE cfg then quantization_convert env m
                 else (case attr_prepare_for_quant_convert env m of
                         Some f \<Rightarrow> f cfg
                       | None \<Rightarrow> convert_fx env m)) of
             Inl e \<Rightarrow> (Inl e, info (ConvertingQuantized (QUANTIZATION_BACKEND cfg)) w)
           | Inr c \<Rightarrow>
               export_predictor env cfg c pt od dl
                 (info (QuantizedModel c)
                    (info (ConvertingQuantized (QUANTIZATION_BACKEND cfg)) w)))) \<and>
   (\<not> (\<exists>pre post. pt = pre @ ''int8'' @ post) \<longrightarrow>
      convert_and_export_predictor env cfg m pt od dl w
        = (case fuse_model env m of
             Inl e \<Rightarrow> (Inl e, w)
           | Inr f \<Rightarrow>
               export_predictor env cfg f pt od dl
                 (if 0 < count_bn_exist env f then warning BNExisted (info (FusedModel f) w)
                  else info (FusedModel f) w)))"
proof -
  have sub: "(\<exists>pre post. pt = pre @ ''int8'' @ post) = str_contains ''int8'' pt"
    by (simp only: str_contains_iff)
  show ?thesis
    unfolding sub
    by (simp add: convert_and_export_predictor_def Let_def split: sum.split)
qed

theorem convert_and_export_int8_path_witness:
  "''torchscript_int8'' = ''torchscript_'' @ ''int8'' @ ''''
   \<and> QUANTIZATION_QAT_ENABLED example_cfg = False
   \<and> post_training_quantize example_env example_cfg (NonModule 9) [7] = Inl (ExternalError 9)
   \<and> convert_and_export_predictor example_env example_cfg (NonModule 9) ''torchscript_int8''
        ''out'' [7] empty_world = (Inl (ExternalError 9), info RunningPTQ empty_world)
   \<and> post_training_quantize example_env example_cfg (Module 6) [7] = Inr (Module 26)
   \<and> check_bn_exist example_env (Module 26) = True
   \<and> convert_and_export_predictor example_env example_cfg (Module 6) ''torchscript_int8''
        ''out'' [7] empty_world = (Inl AssertionError, info RunningPTQ empty_world)
   \<and> post_training_quantize example_env example_cfg (Module 1) [7] = Inr (Module 21)
   \<and> check_bn_exist example_env (Module 21) = False
   \<and> convert_and_export_predictor example_env example_cfg (Module 1) ''torchscript_int8''
        ''out'' [7] empty_world
       = export_predictor example_env example_cfg (Module 101) ''torchscript_int8'' ''out'' [7]
           (info (QuantizedModel (Module 101))
              (info (ConvertingQuantized ''fbgemm'') (info RunningPTQ empty_world)))
   \<and> QUANTIZATION_QAT_ENABLED (example_cfg\<lparr>QUANTIZATION_QAT_ENABLED := True\<rparr>) = True
   \<and> convert_and_export_predictor example_env
        (example_cfg\<lparr>QUANTIZATION_QAT_ENABLED := True\<rparr>) (Module 1) ''torchscript_int8''
        ''out'' [7] empty_world
       = export_predictor example_env (example_cfg\<lparr>QUANTIZATION_QAT_ENABLED := True\<rparr>)
           (Module 81) ''torchscript_int8'' ''out'' [7]
           (info (QuantizedModel (Module 81))
              (info (ConvertingQuantized ''fbgemm'') empty_world))
   \<and> convert_and_export_predictor example_env example_cfg (NonModule 9) ''torchscript''
        ''out'' [7] empty_world = (Inl (ExternalError 9), empty_world)"
proof -
  have s: "\<exists>pre post. ''torchscript_int8'' = pre @ ''int8'' @ post"
  proof -
    have "''torchscript_int8'' = ''torchscript_'' @ ''int8'' @ ''''" by simp
    then show ?thesis by blast
  qed
  have q: "\<not> QUANTIZATION_QAT_ENABLED example_cfg"
    by (simp add: example_cfg_def)
  let ?qat = "example_cfg\<lparr>QUANTIZATION_QAT_ENABLED := True\<rparr>"
  have qe: "QUANTIZATION_QAT_ENABLED ?qat"
    by simp
  have "convert_and_export_predictor example_env ?qat (Module 1) ''torchscript_int8''
        ''out'' [7] empty_world
        = (case (if QUANTIZATION_EAGER_MODE ?qat then quantization_convert example_env (Module 1)
                 else (case attr_prepare_for_quant_convert example_env (Module 1) of
                         Some f \<Rightarrow> f ?qat
                       | None \<Rightarrow> convert_fx example_env (Module 1))) of
             Inl e \<Rightarrow> (Inl e, info (ConvertingQuantized (QUANTIZATION_BACKEND ?qat)) empty_world)
           | Inr c \<Rightarrow>
               export_predictor example_env ?qat c ''torchscript_int8'' ''out'' [7]
                 (info (QuantizedModel c)
                    (info (ConvertingQuantized (QUANTIZATION_BACKEND ?qat)) empty_world)))"
    using convert_and_export_int8_path [of "''torchscript_int8''" ?qat example_env
        "Module 1" "[7]" "''out''" empty_world, THEN conjunct2, THEN conjunct1, THEN mp,
        OF s, THEN mp, OF qe] .
  then have rq: "convert_and_export_predictor example_env ?qat (Module 1) ''torchscript_int8''
        ''out'' [7] empty_world
       = export_predictor example_env ?qat (Module 81) ''torchscript_int8'' ''out'' [7]
           (info (QuantizedModel (Module 81))
              (info (ConvertingQuantized ''fbgemm'') empty_world))"
    by (simp add: example_cfg_def example_env_def shifted_def)
  have p9: "post_training_quantize example_env example_cfg (NonModule 9) [7]
              = Inl (ExternalError 9)"
    by (simp add: example_env_def shifted_def)
  have p6: "post_training_quantize example_env example_cfg (Module 6) [7] = Inr (Module 26)"
    by (simp add: example_env_def shifted_def)
  have b6: "check_bn_exist example_env (Module 26)"
    by (simp add: example_env_def)
  have p1: "post_training_quantize example_env example_cfg (Module 1) [7] = Inr (Module 21)"
    by (simp add: example_env_def shifted_def)
  have b1: "\<not> check_bn_exist example_env (Module 21)"
    by (simp add: example_env_def)
  have f9: "fuse_model example_env (NonModule 9) = Inl (ExternalError 9)"
    by (simp add: example_env_def shifted_def)
  have r9: "convert_and_export_predictor example_env example_cfg (NonModule 9)
        ''torchscript_int8'' ''out'' [7] empty_world
          = (Inl (ExternalError 9), info RunningPTQ empty_world)"
    using convert_and_export_int8_path [of "''torchscript_int8''" example_cfg example_env
        "NonModule 9" "[7]" "''out''" empty_world] s q p9
    by blast
  have r6: "convert_and_export_predictor example_env example_cfg (Module 6)
        ''torchscript_int8'' ''out'' [7] empty_world
          = (Inl AssertionError, info RunningPTQ empty_world)"
    using convert_and_export_int8_path [of "''torchscript_int8''" example_cfg example_env
        "Module 6" "[7]" "''out''" empty_world] s q p6 b6
    by blast
  have "convert_and_export_predictor example_env example_cfg (Module 1)
        ''torchscript_int8'' ''out'' [7] empty_world
       = (case (if QUANTIZATION_EAGER_MODE example_cfg
                then quantization_convert example_env (Module 21)
                else (case attr_prepare_for_quant_convert example_env (Module 21) of
                        Some f \<Rightarrow> f example_cfg
                      | None \<Rightarrow> convert_fx example_env (Module 21))) of
                Inl e \<Rightarrow>
                  (Inl e, info (ConvertingQuantized (QUANTIZATION_BACKEND example_cfg))
                            (info RunningPTQ empty_world))
              | Inr c \<Rightarrow>
                  export_predictor example_env example_cfg c ''torchscript_int8'' ''out'' [7]
                    (info (QuantizedModel c)
                       (info (ConvertingQuantized (QUANTIZATION_BACKEND example_cfg))
                          (info RunningPTQ empty_world))))"
    using convert_and_export_int8_path [of "''torchscript_int8''" example_cfg example_env
        "Module 1" "[7]" "''out''" empty_world] s q p1 b1
    by blast
  then have r1: "convert_and_export_predictor example_env example_cfg (Module 1)
        ''torchscript_int8'' ''out'' [7] empty_world
       = export_predictor example_env example_cfg (Module 101) ''torchscript_int8'' ''out'' [7]
           (info (QuantizedModel (Module 101))
              (info (ConvertingQuantized ''fbgemm'') (info RunningPTQ empty_world)))"
    by (simp add: example_cfg_def example_env_def shifted_def)
  have "convert_and_export_predictor example_env example_cfg (NonModule 9) ''torchscript''
        ''out'' [7] empty_world
          = (case fuse_model example_env (NonModule 9) of
             Inl e \<Rightarrow> (Inl e, empty_world)
           | Inr f \<Rightarrow>
               export_predictor example_env example_cfg f ''torchscript'' ''out'' [7]
                 (if 0 < count_bn_exist example_env f
                  then warning BNExisted (info (FusedModel f) empty_world)
                  else info (FusedModel f) empty_world))"
    using convert_and_export_int8_path [of "''torchscript''" example_cfg example_env
        "NonModule 9" "[7]" "''out''" empty_world] example_not_int8
    by blast
  then have n9: "convert_and_export_predictor example_env example_cfg (NonModule 9)
        ''torchscript'' ''out'' [7] empty_world = (Inl (ExternalError 9), empty_world)"
    by (simp add: f9)
  show ?thesis using q p9 r9 p6 b6 r6 p1 b1 r1 qe rq n9 by simp
qed










end
